theory Spec2Isabelle
  imports Main "HOL-Library.Char_ord" "HOL-Library.List_Lexorder"
begin

section \<open>Values and records of the graph layer\<close>

text \<open>
  The graph database of \<^verbatim>\<open>lib/graph\<close> keeps JSON records in a flat key-value store.
  Property values are JavaScript values; the model has the three kinds the identity
  tracker writes: strings, integers (edge counters) and the device-metadata object of a
  FINGERPRINT node. \<^verbatim>\<open>JSON.parse (JSON.stringify x)\<close> is taken to be \<open>x\<close>, so that the
  store holds the records themselves.
\<close>

record DeviceMetadata =
  browser :: string
  browserVersion :: string
  os :: string
  osVersion :: string
  device :: string
  deviceType :: string
  cpu :: string
  userAgent :: string

datatype jsval = JStr string | JNum int | JMeta DeviceMetadata

type_synonym props = "(string \<times> jsval) list"

text \<open>
  A properties object is an association list in insertion order (the order of
  \<^verbatim>\<open>Object.entries\<close>). \<open>get_prop k ps\<close> is \<^verbatim>\<open>ps[k]\<close>, with \<open>None\<close> for \<^verbatim>\<open>undefined\<close>.
\<close>

definition get_prop :: "string \<Rightarrow> props \<Rightarrow> jsval option" where
  "get_prop k ps = map_of ps k"

fun set_prop :: "string \<Rightarrow> jsval \<Rightarrow> props \<Rightarrow> props" where
  "set_prop k v [] = [(k, v)]"
| "set_prop k v ((k', v') # ps) =
     (if k' = k then (k, v) # ps else (k', v') # set_prop k v ps)"

text \<open>The object spread \<^verbatim>\<open>{ ...a, ...b }\<close>: the keys of \<open>b\<close> overwrite or are appended.\<close>

definition spread :: "props \<Rightarrow> props \<Rightarrow> props" where
  "spread a b = fold (\<lambda>(k, v). set_prop k v) b a"

record node =
  node_id :: string
  node_properties :: props
  inEdges :: "string list"
  outEdges :: "string list"

record edge =
  edge_id :: string
  edge_type :: string
  edge_properties :: props
  fromNodeId :: string
  toNodeId :: string

subsection \<open>String forms\<close>

function digits_of :: "nat \<Rightarrow> string" where
  "digits_of n =
     (if n < 10 then [char_of (48 + n)] else digits_of (n div 10) @ [char_of (48 + n mod 10)])"
  by pat_completeness auto
termination
  by (relation "measure (\<lambda>n. n)") auto

declare digits_of.simps [simp del]

definition string_of_int :: "int \<Rightarrow> string" where
  "string_of_int i = (if i < 0 then CHR ''-'' # digits_of (nat (- i)) else digits_of (nat i))"

text \<open>The template literal \<^verbatim>\<open>`${value}`\<close>.\<close>

fun to_string :: "jsval \<Rightarrow> string" where
  "to_string (JStr s) = s"
| "to_string (JNum n) = string_of_int n"
| "to_string (JMeta m) = ''[object Object]''"

section \<open>The key-value store\<close>

text \<open>
  The host store (\<^verbatim>\<open>KVNamespace\<close>) is outside the repository. It is modelled as an
  association list from keys to records with overwrite on \<open>put\<close>, and a listing that returns
  the keys with a given prefix in ascending lexicographic order, at most \<open>limit\<close> of them,
  with the flag \<open>list_complete\<close> and a cursor when keys remain.
\<close>

datatype kvval = NodeV node | EdgeV edge | IndexV string jsval

type_synonym kvstore = "(string \<times> kvval) list"

definition kv_get :: "kvstore \<Rightarrow> string \<Rightarrow> kvval option" where
  "kv_get s k = map_of s k"

fun kv_put :: "string \<Rightarrow> kvval \<Rightarrow> kvstore \<Rightarrow> kvstore" where
  "kv_put k v [] = [(k, v)]"
| "kv_put k v ((k', v') # s) =
     (if k' = k then (k, v) # s else (k', v') # kv_put k v s)"

definition kv_delete :: "string \<Rightarrow> kvstore \<Rightarrow> kvstore" where
  "kv_delete k s = filter (\<lambda>(k', _). k' \<noteq> k) s"

definition starts_with :: "string \<Rightarrow> string \<Rightarrow> bool" where
  "starts_with p k = (take (length p) k = p)"

record list_result =
  keys :: "string list"
  list_complete :: bool
  cursor :: "string option"

definition after_cursor :: "string option \<Rightarrow> string \<Rightarrow> bool" where
  "after_cursor c k = (case c of None \<Rightarrow> True | Some c' \<Rightarrow> c' < k)"

definition kv_list :: "kvstore \<Rightarrow> string \<Rightarrow> nat \<Rightarrow> string option \<Rightarrow> list_result" where
  "kv_list s p limit c =
     (let ks = sort (filter (\<lambda>k. starts_with p k \<and> after_cursor c k) (map fst s));
          page = take limit ks
      in \<lparr>keys = page,
          list_complete = (length ks \<le> limit),
          cursor = (if length ks \<le> limit \<or> page = [] then None else Some (last page))\<rparr>)"

section \<open>The graph database\<close>

text \<open>
  The state of a \<^verbatim>\<open>GraphDatabase\<close> is the store together with the source of identifiers:
  \<^verbatim>\<open>nanoid(14)\<close> returns \<open>ids db (drawn db)\<close> and advances \<open>drawn\<close>. Operations that the
  source starts together with \<^verbatim>\<open>Promise.all\<close> are run one after the other in the order in
  which the source issues them, each to completion (the sequential schedule; no
  interleaving of two asynchronous calls is modelled).
\<close>

record graphdb =
  kv :: kvstore
  ids :: "nat \<Rightarrow> string"
  drawn :: nat

definition NODE_PREFIX :: string where "NODE_PREFIX = ''node:''"
definition EDGE_PREFIX :: string where "EDGE_PREFIX = ''edge:''"
definition INDEX_PREFIX :: string where "INDEX_PREFIX = ''index:''"
definition BATCH_SIZE :: nat where "BATCH_SIZE = 100"

definition node_key :: "string \<Rightarrow> string" where
  "node_key nodeId = NODE_PREFIX @ nodeId"

definition edge_key :: "string \<Rightarrow> string" where
  "edge_key edgeId = EDGE_PREFIX @ edgeId"

definition index_key :: "string \<Rightarrow> jsval \<Rightarrow> string \<Rightarrow> string" where
  "index_key k v nodeId = INDEX_PREFIX @ k @ '':'' @ to_string v @ '':'' @ nodeId"

definition put_indexes :: "string \<Rightarrow> props \<Rightarrow> kvstore \<Rightarrow> kvstore" where
  "put_indexes nodeId ps s =
     fold (\<lambda>(k, v). kv_put (index_key k v nodeId) (IndexV nodeId v)) ps s"

definition delete_indexes :: "string \<Rightarrow> props \<Rightarrow> kvstore \<Rightarrow> kvstore" where
  "delete_indexes nodeId ps s = fold (\<lambda>(k, v). kv_delete (index_key k v nodeId)) ps s"

definition createNode :: "graphdb \<Rightarrow> props \<Rightarrow> node \<times> graphdb" where
  "createNode db properties =
     (let nodeId = ids db (drawn db);
          n = \<lparr>node_id = nodeId, node_properties = properties, inEdges = [], outEdges = []\<rparr>;
          s1 = kv_put (node_key nodeId) (NodeV n) (kv db);
          s2 = put_indexes nodeId properties s1
      in (n, db\<lparr>kv := s2, drawn := drawn db + 1\<rparr>))"

definition getNode :: "graphdb \<Rightarrow> string \<Rightarrow> node option" where
  "getNode db nodeId =
     (case kv_get (kv db) (node_key nodeId) of Some (NodeV n) \<Rightarrow> Some n | _ \<Rightarrow> None)"

definition updateNode :: "graphdb \<Rightarrow> string \<Rightarrow> props \<Rightarrow> node option \<times> graphdb" where
  "updateNode db nodeId delta =
     (case getNode db nodeId of
        None \<Rightarrow> (None, db)
      | Some n \<Rightarrow>
          (let s1 = delete_indexes nodeId (node_properties n) (kv db);
               n' = n\<lparr>node_properties := spread (node_properties n) delta\<rparr>;
               s2 = put_indexes nodeId (node_properties n') s1;
               s3 = kv_put (node_key nodeId) (NodeV n') s2
           in (Some n', db\<lparr>kv := s3\<rparr>)))"

definition getEdge :: "graphdb \<Rightarrow> string \<Rightarrow> edge option" where
  "getEdge db edgeId =
     (case kv_get (kv db) (edge_key edgeId) of Some (EdgeV e) \<Rightarrow> Some e | _ \<Rightarrow> None)"

definition updateEdge :: "graphdb \<Rightarrow> string \<Rightarrow> props \<Rightarrow> edge option \<times> graphdb" where
  "updateEdge db edgeId properties =
     (case getEdge db edgeId of
        None \<Rightarrow> (None, db)
      | Some e \<Rightarrow>
          (let e' = e\<lparr>edge_properties := spread (edge_properties e) properties\<rparr>
           in (Some e', db\<lparr>kv := kv_put (edge_key edgeId) (EdgeV e') (kv db)\<rparr>)))"



datatype error = EndpointMissing | SourceNodeNotFound

definition createEdge ::
  "graphdb \<Rightarrow> string \<Rightarrow> string \<Rightarrow> string \<Rightarrow> props \<Rightarrow> error + edge \<times> graphdb" where
  "createEdge db fromId toId ty properties =
     (case (getNode db fromId, getNode db toId) of
        (Some fromNode, Some toNode) \<Rightarrow>
          (let edgeId = ids db (drawn db);
               e = \<lparr>edge_id = edgeId, edge_type = ty, edge_properties = properties,
                    fromNodeId = fromId, toNodeId = toId\<rparr>;
               fromNode' = fromNode\<lparr>outEdges := outEdges fromNode @ [edgeId]\<rparr>;
               toNode' = toNode\<lparr>inEdges := inEdges toNode @ [edgeId]\<rparr>;
               s1 = kv_put (edge_key edgeId) (EdgeV e) (kv db);
               s2 = kv_put (node_key fromId) (NodeV fromNode') s1;
               s3 = kv_put (node_key toId) (NodeV toNode') s2
           in Inr (e, db\<lparr>kv := s3, drawn := drawn db + 1\<rparr>))
      | _ \<Rightarrow> Inl EndpointMissing)"

subsection \<open>Index queries\<close>

record QueryOptions =
  q_type :: "string option"
  q_property :: "string option"
  q_value :: "jsval option"
  q_limit :: "nat option"
  q_cursor :: "string option"

record QueryResult =
  items :: "node list"
  r_cursor :: "string option"
  hasMore :: bool

text \<open>\<^verbatim>\<open>s.split(":")\<close> and \<^verbatim>\<open>.pop()\<close>: the pieces between colons, and the last of them.\<close>

fun split_colon :: "string \<Rightarrow> string list" where
  "split_colon [] = [[]]"
| "split_colon (c # cs) =
     (if c = CHR '':'' then [] # split_colon cs
      else (case split_colon cs of [] \<Rightarrow> [[c]] | p # ps \<Rightarrow> (c # p) # ps))"

definition pop :: "string list \<Rightarrow> string" where
  "pop ps = last ps"

text \<open>A string option is truthy when it is defined and not empty.\<close>

definition truthy :: "string option \<Rightarrow> bool" where
  "truthy s = (case s of None \<Rightarrow> False | Some t \<Rightarrow> t \<noteq> [])"

definition query_prefix :: "QueryOptions \<Rightarrow> string" where
  "query_prefix opts =
     (if truthy (q_type opts) then INDEX_PREFIX @ ''type:'' @ the (q_type opts) @ '':''
      else if truthy (q_property opts) \<and> q_value opts \<noteq> None
        then INDEX_PREFIX @ the (q_property opts) @ '':'' @ to_string (the (q_value opts)) @ '':''
      else INDEX_PREFIX)"

definition query_limit :: "QueryOptions \<Rightarrow> nat" where
  "query_limit opts = (case q_limit opts of None \<Rightarrow> BATCH_SIZE | Some l \<Rightarrow> l)"

text \<open>The part of \<^verbatim>\<open>query\<close> after the store has answered the listing.\<close>

definition query_result :: "graphdb \<Rightarrow> nat \<Rightarrow> list_result \<Rightarrow> QueryResult" where
  "query_result db limit listResult =
     (let nodeIds = map (\<lambda>key. pop (split_colon key)) (take limit (keys listResult));
          nodes = map (getNode db) nodeIds;
          validNodes = List.map_filter (\<lambda>n. n) nodes
      in \<lparr>items = validNodes,
          r_cursor = (if \<not> list_complete listResult then cursor listResult else None),
          hasMore = (\<not> list_complete listResult \<and> length (keys listResult) > limit)\<rparr>)"

definition query :: "graphdb \<Rightarrow> QueryOptions \<Rightarrow> QueryResult" where
  "query db opts =
     (let limit = query_limit opts;
          listResult = kv_list (kv db) (query_prefix opts) (limit + 1) (q_cursor opts)
      in query_result db limit listResult)"

section \<open>The identity tracker\<close>

text \<open>
  The user-agent classifier (\<^verbatim>\<open>ua-parser-js\<close>) is outside the repository and is a
  parameter \<open>parse_ua\<close> of the operations that use it; a field it leaves out is \<open>None\<close>.
\<close>

record UAResult =
  ua_browser_name :: "string option"
  ua_browser_version :: "string option"
  ua_os_name :: "string option"
  ua_os_version :: "string option"
  ua_device_model :: "string option"
  ua_device_type :: "string option"
  ua_cpu_architecture :: "string option"

text \<open>\<^verbatim>\<open>x || d\<close> on an optional string.\<close>

definition or_default :: "string option \<Rightarrow> string \<Rightarrow> string" where
  "or_default x d = (if truthy x then the x else d)"

definition type_query :: "string \<Rightarrow> string \<Rightarrow> string \<Rightarrow> QueryOptions" where
  "type_query ty property v =
     \<lparr>q_type = Some ty, q_property = Some property, q_value = Some (JStr v),
      q_limit = None, q_cursor = None\<rparr>"

definition getOrCreateUserNode :: "graphdb \<Rightarrow> string \<Rightarrow> string \<Rightarrow> node \<times> graphdb" where
  "getOrCreateUserNode db userId timestamp =
     (case items (query db (type_query ''USER'' ''userId'' userId)) of
        user # _ \<Rightarrow> (user, snd (updateNode db (node_id user) [(''lastSeen'', JStr timestamp)]))
      | [] \<Rightarrow>
          createNode db
            [(''type'', JStr ''USER''), (''userId'', JStr userId),
             (''firstSeen'', JStr timestamp), (''lastSeen'', JStr timestamp)])"

definition getOrCreateIPNode :: "graphdb \<Rightarrow> string \<Rightarrow> string \<Rightarrow> node \<times> graphdb" where
  "getOrCreateIPNode db ip timestamp =
     (case items (query db (type_query ''IP'' ''ip'' ip)) of
        ipNode # _ \<Rightarrow>
          (ipNode, snd (updateNode db (node_id ipNode) [(''lastSeen'', JStr timestamp)]))
      | [] \<Rightarrow>
          createNode db
            [(''type'', JStr ''IP''), (''ip'', JStr ip),
             (''firstSeen'', JStr timestamp), (''lastSeen'', JStr timestamp)])"

definition getOrCreateFingerprintNode ::
  "(string \<Rightarrow> UAResult) \<Rightarrow> graphdb \<Rightarrow> string \<Rightarrow> string \<Rightarrow> string \<Rightarrow> node \<times> graphdb" where
  "getOrCreateFingerprintNode parse_ua db fingerprint ua timestamp =
     (case items (query db (type_query ''FINGERPRINT'' ''fingerprint'' fingerprint)) of
        fpNode # _ \<Rightarrow>
          (fpNode, snd (updateNode db (node_id fpNode) [(''lastSeen'', JStr timestamp)]))
      | [] \<Rightarrow>
          (let result = parse_ua ua
           in createNode db
                [(''type'', JStr ''FINGERPRINT''), (''fingerprint'', JStr fingerprint),
                 (''firstSeen'', JStr timestamp), (''lastSeen'', JStr timestamp),
                 (''metadata'', JMeta
                    \<lparr>browser = or_default (ua_browser_name result) ''Unknown'',
                     browserVersion = or_default (ua_browser_version result) ''Unknown'',
                     os = or_default (ua_os_name result) ''Unknown'',
                     osVersion = or_default (ua_os_version result) ''Unknown'',
                     device = or_default (ua_device_model result) ''Unknown'',
                     deviceType = or_default (ua_device_type result) ''desktop'',
                     cpu = or_default (ua_cpu_architecture result) ''Unknown'',
                     userAgent = ua\<rparr>)]))"

fun findEdge :: "graphdb \<Rightarrow> string list \<Rightarrow> string \<Rightarrow> string \<Rightarrow> edge option" where
  "findEdge db [] ty toId = None"
| "findEdge db (edgeId # edgeIds) ty toId =
     (case getEdge db edgeId of
        Some e \<Rightarrow> (if edge_type e = ty \<and> toNodeId e = toId then Some e
                   else findEdge db edgeIds ty toId)
      | None \<Rightarrow> findEdge db edgeIds ty toId)"

text \<open>\<^verbatim>\<open>(edge.properties.count || 0) + 1\<close>, with JavaScript's \<^verbatim>\<open>+\<close> on a string.\<close>

fun count_plus_one :: "jsval option \<Rightarrow> jsval" where
  "count_plus_one None = JNum 1"
| "count_plus_one (Some (JNum n)) = JNum (n + 1)"
| "count_plus_one (Some (JStr s)) = (if s = [] then JNum 1 else JStr (s @ ''1''))"
| "count_plus_one (Some (JMeta m)) = JStr ''[object Object]1''"

definition updateConnection ::
  "graphdb \<Rightarrow> string \<Rightarrow> string \<Rightarrow> string \<Rightarrow> string \<Rightarrow> error + graphdb" where
  "updateConnection db fromId toId ty timestamp =
     (case getNode db fromId of
        None \<Rightarrow> Inl SourceNodeNotFound
      | Some fromNode \<Rightarrow>
          (case findEdge db (outEdges fromNode) ty toId of
             Some e \<Rightarrow>
               Inr (snd (updateEdge db (edge_id e)
                  [(''lastSeen'', JStr timestamp),
                   (''count'', count_plus_one (get_prop ''count'' (edge_properties e)))]))
           | None \<Rightarrow>
               (case createEdge db fromId toId ty
                       [(''firstSeen'', JStr timestamp), (''lastSeen'', JStr timestamp),
                        (''count'', JNum 1)] of
                  Inl err \<Rightarrow> Inl err
                | Inr (e, db') \<Rightarrow> Inr db')))"

definition recordConnection ::
  "(string \<Rightarrow> UAResult) \<Rightarrow> graphdb \<Rightarrow> string \<Rightarrow> string \<Rightarrow> string \<Rightarrow> string \<Rightarrow> string
     \<Rightarrow> error + graphdb" where
  "recordConnection parse_ua db userId ip fingerprint ua timestamp =
     (let (userNode, db1) = getOrCreateUserNode db userId timestamp;
          (ipNode, db2) = getOrCreateIPNode db1 ip timestamp;
          (fpNode, db3) = getOrCreateFingerprintNode parse_ua db2 fingerprint ua timestamp
      in case updateConnection db3 (node_id userNode) (node_id ipNode) ''USES_IP'' timestamp of
           Inl err \<Rightarrow> Inl err
         | Inr db4 \<Rightarrow>
             updateConnection db4 (node_id userNode) (node_id fpNode) ''USES_FINGERPRINT''
               timestamp)"

text \<open>
  The cast \<^verbatim>\<open>edge.properties as ConnectionStats\<close>: the three fields the interface
  declares, read from the properties of the edge.
\<close>

record ConnectionStats =
  firstSeen :: "jsval option"
  lastSeen :: "jsval option"
  count :: "jsval option"


record connection =
  c_node :: node
  c_stats :: ConnectionStats



record ip_connection =
  ic_ip :: "jsval option"
  ic_stats :: ConnectionStats

record fp_connection =
  fc_fingerprint :: "jsval option"
  fc_metadata :: "jsval option"
  fc_stats :: ConnectionStats

record UserConnection =
  ips :: "ip_connection list"
  fingerprints :: "fp_connection list"


section \<open>The risk engine\<close>

text \<open>
  The built-in \<^verbatim>\<open>Date\<close> is a parameter: \<open>toISOString D ms\<close> is
  \<^verbatim>\<open>new Date(ms).toISOString()\<close> and \<open>getTime D s\<close> is \<^verbatim>\<open>new Date(s).getTime()\<close>, with
  \<open>None\<close> for \<^verbatim>\<open>NaN\<close>. The current time \<open>now\<close> is an argument, in milliseconds.
\<close>

record date_api =
  toISOString :: "int \<Rightarrow> string"
  getTime :: "string \<Rightarrow> int option"

text \<open>
  \<^verbatim>\<open>v >= cutoff\<close> for a property value and an ISO timestamp: strings compare by code
  units, an object compares through its string form, and a number or \<^verbatim>\<open>undefined\<close>
  against a timestamp (not a numeric string) is a comparison with \<^verbatim>\<open>NaN\<close>.
\<close>

fun js_ge :: "jsval option \<Rightarrow> string \<Rightarrow> bool" where
  "js_ge (Some (JStr a)) cutoff = (cutoff \<le> a)"
| "js_ge (Some (JMeta m)) cutoff = (cutoff \<le> ''[object Object]'')"
| "js_ge (Some (JNum n)) cutoff = False"
| "js_ge None cutoff = False"

text \<open>\<^verbatim>\<open>new Set(xs)\<close>: the distinct values in order of first appearance.\<close>

definition new_Set :: "'a list \<Rightarrow> 'a list" where
  "new_Set xs = fold (\<lambda>x s. if x \<in> set s then s else s @ [x]) xs []"

datatype level = LOW | MEDIUM | HIGH

record event =
  ev_type :: string
  ev_value :: "jsval option"
  ev_timestamp :: "jsval option"

datatype details =
    NoDetails
  | MultipleIPs int "jsval option list"
  | ChangesLastHour int
  | UniqueFingerprints int
  | RapidChanges int string "event list"

record RiskFactor =
  f_score :: int
  f_reason :: string
  f_details :: details

record RiskAssessment =
  score :: int
  level :: level
  factors :: "RiskFactor list"

definition getRiskLevel :: "int \<Rightarrow> level" where
  "getRiskLevel sc = (if sc \<ge> 70 then HIGH else if sc \<ge> 40 then MEDIUM else LOW)"

text \<open>
  The sort key of an event: its timestamp, a string by the type \<^verbatim>\<open>ConnectionStats\<close>
  (\<^verbatim>\<open>localeCompare\<close> orders equally formatted ISO timestamps as their code units do).
\<close>

fun timestamp_string :: "jsval option \<Rightarrow> string" where
  "timestamp_string (Some v) = to_string v"
| "timestamp_string None = ''undefined''"

fun date_of :: "date_api \<Rightarrow> jsval option \<Rightarrow> int option" where
  "date_of D (Some (JStr s)) = getTime D s"
| "date_of D (Some (JNum n)) = Some n"
| "date_of D (Some (JMeta m)) = getTime D ''[object Object]''"
| "date_of D None = None"

text \<open>The loop of \<^verbatim>\<open>checkRapidChanges\<close> over adjacent events.\<close>

fun count_rapid :: "date_api \<Rightarrow> event list \<Rightarrow> int" where
  "count_rapid D (a # b # es) =
     (case (date_of D (ev_timestamp b), date_of D (ev_timestamp a)) of
        (Some tb, Some ta) \<Rightarrow> (if tb - ta < 1000 then 1 else 0) + count_rapid D (b # es)
      | _ \<Rightarrow> count_rapid D (b # es))"
| "count_rapid D es = 0"

definition checkRapidChanges ::
  "date_api \<Rightarrow> connection list \<Rightarrow> connection list \<Rightarrow> string \<Rightarrow> RiskFactor" where
  "checkRapidChanges D ipEdges fpEdges since =
     (let recentEvents =
            sort_key (\<lambda>e. timestamp_string (ev_timestamp e))
              (filter (\<lambda>e. js_ge (ev_timestamp e) since)
                 (map (\<lambda>e. \<lparr>ev_type = ''ip'',
                            ev_value = get_prop ''ip'' (node_properties (c_node e)),
                            ev_timestamp = lastSeen (c_stats e)\<rparr>) ipEdges
                  @ map (\<lambda>e. \<lparr>ev_type = ''fp'',
                              ev_value = get_prop ''fingerprint'' (node_properties (c_node e)),
                              ev_timestamp = lastSeen (c_stats e)\<rparr>) fpEdges))
      in if length recentEvents < 2 then \<lparr>f_score = 0, f_reason = [], f_details = NoDetails\<rparr>
         else (let rapidChanges = count_rapid D recentEvents
               in if rapidChanges > 0
                  then \<lparr>f_score = min (rapidChanges * 15) 35,
                        f_reason = ''Very rapid identity changes'',
                        f_details = RapidChanges rapidChanges ''5 minutes'' recentEvents\<rparr>
                  else \<lparr>f_score = 0, f_reason = [], f_details = NoDetails\<rparr>))"

definition calculateUserRisk ::
  "date_api \<Rightarrow> int \<Rightarrow> connection list \<Rightarrow> connection list \<Rightarrow> RiskAssessment" where
  "calculateUserRisk D now ipEdges fpEdges =
     (let last24h = toISOString D (now - 24 * 60 * 60 * 1000);
          last1h = toISOString D (now - 60 * 60 * 1000);
          last5m = toISOString D (now - 5 * 60 * 1000);
          recentIPs = filter (\<lambda>e. js_ge (lastSeen (c_stats e)) last24h) ipEdges;
          uniqueIPs = new_Set (map (\<lambda>e. get_prop ''ip'' (node_properties (c_node e))) recentIPs);
          f1 = (if int (length uniqueIPs) > 3
                then [\<lparr>f_score = min (int (length uniqueIPs) * 10) 30,
                       f_reason = ''Multiple IPs in 24 hours'',
                       f_details = MultipleIPs (int (length uniqueIPs)) uniqueIPs\<rparr>]
                else []);
          ipChangesLast1h =
            int (length (new_Set (map (\<lambda>e. get_prop ''ip'' (node_properties (c_node e)))
                   (filter (\<lambda>e. js_ge (lastSeen (c_stats e)) last1h) ipEdges))));
          f2 = (if ipChangesLast1h > 2
                then [\<lparr>f_score = min (ipChangesLast1h * 15) 40,
                       f_reason = ''Rapid IP switching'',
                       f_details = ChangesLastHour ipChangesLast1h\<rparr>]
                else []);
          recentFingerprints = filter (\<lambda>e. js_ge (lastSeen (c_stats e)) last24h) fpEdges;
          uniqueFingerprints =
            new_Set (map (\<lambda>e. get_prop ''fingerprint'' (node_properties (c_node e)))
              recentFingerprints);
          f3 = (if int (length uniqueFingerprints) > 2
                then [\<lparr>f_score = min (int (length uniqueFingerprints) * 15) 35,
                       f_reason = ''Multiple fingerprints in 24 hours'',
                       f_details = UniqueFingerprints (int (length uniqueFingerprints))\<rparr>]
                else []);
          rapidChanges = checkRapidChanges D ipEdges fpEdges last5m;
          f4 = (if f_score rapidChanges > 0 then [rapidChanges] else []);
          factors = f1 @ f2 @ f3 @ f4;
          totalScore = min (fold (\<lambda>factor sum. sum + f_score factor) factors 0) 100
      in \<lparr>score = totalScore, level = getRiskLevel totalScore, factors = factors\<rparr>)"

section \<open>The connection graph\<close>

record out_node =
  o_id :: string
  o_type :: string
  o_label :: "jsval option"
  o_risk :: "level option"
  o_riskScore :: "int option"
  o_metadata :: "jsval option"
  o_stats :: ConnectionStats

record out_link =
  l_source :: string
  l_target :: string
  l_type :: string
  l_stats :: ConnectionStats

record ConnectionsResponse =
  nodes :: "out_node list"
  links :: "out_link list"





definition all_users :: QueryOptions where
  "all_users = \<lparr>q_type = Some ''USER'', q_property = None, q_value = None,
                 q_limit = None, q_cursor = None\<rparr>"


section \<open>Observations and scenario data\<close>

text \<open>The node and edge records held by the store, in store order.\<close>

definition all_nodes :: "graphdb \<Rightarrow> node list" where
  "all_nodes db = List.map_filter (\<lambda>(k, x). case x of NodeV n \<Rightarrow> Some n | _ \<Rightarrow> None) (kv db)"


text \<open>The substring after the last colon of a key (the whole key when it has none).\<close>

definition after_last_colon :: "string \<Rightarrow> string" where
  "after_last_colon s = rev (takeWhile (\<lambda>c. c \<noteq> CHR '':'') (rev s))"

text \<open>
  A source of identifiers for the scenarios: fourteen characters, the draw number padded
  with zeros. The empty database starts from it with nothing drawn.
\<close>

definition pad :: "nat \<Rightarrow> nat \<Rightarrow> string" where
  "pad w n = replicate (w - length (digits_of n)) (CHR ''0'') @ digits_of n"

definition scenario_ids :: "nat \<Rightarrow> string" where
  "scenario_ids n = ''id'' @ pad 12 n"

definition empty_db :: graphdb where
  "empty_db = \<lparr>kv = [], ids = scenario_ids, drawn = 0\<rparr>"

text \<open>A classifier that recognises nothing, so that every metadata field takes its default.\<close>

definition unknown_ua :: "string \<Rightarrow> UAResult" where
  "unknown_ua s =
     \<lparr>ua_browser_name = None, ua_browser_version = None, ua_os_name = None,
      ua_os_version = None, ua_device_model = None, ua_device_type = None,
      ua_cpu_architecture = None\<rparr>"

subsection \<open>A model of the built-in Date for the scenarios\<close>

text \<open>
  \<open>utc_date\<close> formats milliseconds since the epoch as \<^verbatim>\<open>YYYY-MM-DDTHH:mm:ss.sssZ\<close> (years
  0 to 9999, proleptic Gregorian calendar) and reads timestamps of that form back; any
  other string is an invalid date.
\<close>

definition civil_from_days :: "int \<Rightarrow> int \<times> int \<times> int" where
  "civil_from_days z0 =
     (let z = z0 + 719468;
          era = z div 146097;
          doe = z - era * 146097;
          yoe = (doe - doe div 1460 + doe div 36524 - doe div 146096) div 365;
          doy = doe - (365 * yoe + yoe div 4 - yoe div 100);
          mp = (5 * doy + 2) div 153;
          d = doy - (153 * mp + 2) div 5 + 1;
          m = (if mp < 10 then mp + 3 else mp - 9);
          y = yoe + era * 400 + (if m \<le> 2 then 1 else 0)
      in (y, m, d))"

definition days_from_civil :: "int \<Rightarrow> int \<Rightarrow> int \<Rightarrow> int" where
  "days_from_civil y0 m d =
     (let y = (if m \<le> 2 then y0 - 1 else y0);
          era = y div 400;
          yoe = y - era * 400;
          doy = (153 * (if m > 2 then m - 3 else m + 9) + 2) div 5 + d - 1;
          doe = yoe * 365 + yoe div 4 - yoe div 100 + doy
      in era * 146097 + doe - 719468)"

definition utc_toISOString :: "int \<Rightarrow> string" where
  "utc_toISOString ms =
     (let (y, m, d) = civil_from_days (ms div 86400000);
          r = ms mod 86400000
      in pad 4 (nat y) @ ''-'' @ pad 2 (nat m) @ ''-'' @ pad 2 (nat d) @ ''T''
         @ pad 2 (nat (r div 3600000)) @ '':'' @ pad 2 (nat (r mod 3600000 div 60000)) @ '':''
         @ pad 2 (nat (r mod 60000 div 1000)) @ ''.'' @ pad 3 (nat (r mod 1000)) @ ''Z'')"

fun digits_value :: "string \<Rightarrow> int option" where
  "digits_value [] = Some 0"
| "digits_value cs =
     (let c = last cs
      in if CHR ''0'' \<le> c \<and> c \<le> CHR ''9''
         then (case digits_value (butlast cs) of
                 None \<Rightarrow> None
               | Some n \<Rightarrow> Some (10 * n + (int (of_char c) - 48)))
         else None)"

definition utc_getTime :: "string \<Rightarrow> int option" where
  "utc_getTime s =
     (if length s = 24 \<and> s ! 4 = CHR ''-'' \<and> s ! 7 = CHR ''-'' \<and> s ! 10 = CHR ''T''
         \<and> s ! 13 = CHR '':'' \<and> s ! 16 = CHR '':'' \<and> s ! 19 = CHR ''.'' \<and> s ! 23 = CHR ''Z''
      then (case (digits_value (take 4 s), digits_value (take 2 (drop 5 s)),
                  digits_value (take 2 (drop 8 s)), digits_value (take 2 (drop 11 s)),
                  digits_value (take 2 (drop 14 s)), digits_value (take 2 (drop 17 s)),
                  digits_value (take 3 (drop 20 s))) of
              (Some y, Some m, Some d, Some hh, Some mi, Some ss, Some mmm) \<Rightarrow>
                (if 1 \<le> m \<and> m \<le> 12 \<and> 1 \<le> d \<and> d \<le> 31 \<and> hh < 24 \<and> mi < 60 \<and> ss < 60
                 then Some (days_from_civil y m d * 86400000 + hh * 3600000 + mi * 60000
                            + ss * 1000 + mmm)
                 else None)
            | _ \<Rightarrow> None)
      else None)"

definition utc_date :: date_api where
  "utc_date = \<lparr>toISOString = utc_toISOString, getTime = utc_getTime\<rparr>"

subsection \<open>Scenario states\<close>

text \<open>One more \<open>recordConnection\<close> after a run that has not failed.\<close>

definition record_after ::
  "error + graphdb \<Rightarrow> string \<Rightarrow> string \<Rightarrow> string \<Rightarrow> string \<Rightarrow> error + graphdb" where
  "record_after r userId ip fingerprint timestamp =
     (case r of
        Inl err \<Rightarrow> Inl err
      | Inr db \<Rightarrow> recordConnection unknown_ua db userId ip fingerprint ''Mozilla/5.0'' timestamp)"


text \<open>S5: user \<open>u1\<close> from a first address, and 500 ms later from a second one.\<close>

definition S5_run :: "error + graphdb" where
  "S5_run =
     record_after
       (record_after (Inr empty_db) ''u1'' ''1.1.1.1'' ''fpA'' ''2024-01-01T00:00:00.000Z'')
       ''u1'' ''2.2.2.2'' ''fpA'' ''2024-01-01T00:00:00.500Z''"

text \<open>A store that knows user \<open>u2\<close> only, and the same store after \<open>u1\<close> is recorded.\<close>

definition other_user_run :: "error + graphdb" where
  "other_user_run =
     record_after (Inr empty_db) ''u2'' ''2.2.2.2'' ''fpB'' ''2024-01-01T00:00:00.000Z''"

definition new_user_run :: "error + graphdb" where
  "new_user_run =
     record_after other_user_run ''u1'' ''1.1.1.1'' ''fpA'' ''2024-01-02T00:00:00.000Z''"

text \<open>What a node is to the tracker: its type, its three natural keys and its two dates.\<close>

definition node_summary :: "node \<Rightarrow> jsval option list" where
  "node_summary n =
     map (\<lambda>k. get_prop k (node_properties n))
       [''type'', ''userId'', ''ip'', ''fingerprint'', ''firstSeen'', ''lastSeen'']"

text \<open>
  The two adjacency entries of \<open>u1\<close> after S5, and the assessment the scenario expects.
\<close>

definition S5_ip_edge :: connection where
  "S5_ip_edge =
     \<lparr>c_node = \<lparr>node_id = ''id000000000001'',
                node_properties =
                  [(''type'', JStr ''IP''), (''ip'', JStr ''1.1.1.1''),
                   (''firstSeen'', JStr ''2024-01-01T00:00:00.000Z''),
                   (''lastSeen'', JStr ''2024-01-01T00:00:00.500Z'')],
                inEdges = [''id000000000003''], outEdges = []\<rparr>,
      c_stats = \<lparr>firstSeen = Some (JStr ''2024-01-01T00:00:00.000Z''),
                 lastSeen = Some (JStr ''2024-01-01T00:00:00.500Z''),
                 count = Some (JNum 2)\<rparr>\<rparr>"

definition S5_fp_edge :: connection where
  "S5_fp_edge =
     \<lparr>c_node = \<lparr>node_id = ''id000000000002'',
                node_properties =
                  [(''type'', JStr ''FINGERPRINT''), (''fingerprint'', JStr ''fpA''),
                   (''firstSeen'', JStr ''2024-01-01T00:00:00.000Z''),
                   (''lastSeen'', JStr ''2024-01-01T00:00:00.500Z''),
                   (''metadata'', JMeta
                      \<lparr>browser = ''Unknown'', browserVersion = ''Unknown'',
                       os = ''Unknown'', osVersion = ''Unknown'',
                       device = ''Unknown'', deviceType = ''desktop'',
                       cpu = ''Unknown'', userAgent = ''Mozilla/5.0''\<rparr>)],
                inEdges = [''id000000000004''], outEdges = []\<rparr>,
      c_stats = \<lparr>firstSeen = Some (JStr ''2024-01-01T00:00:00.000Z''),
                 lastSeen = Some (JStr ''2024-01-01T00:00:00.500Z''),
                 count = Some (JNum 2)\<rparr>\<rparr>"


section \<open>Index consistency\<close>









text \<open>The index keys of one node with given properties, and the properties of a stored node.\<close>

definition ikeys :: "string \<Rightarrow> props \<Rightarrow> string set" where
  "ikeys nodeId ps = (\<lambda>(k, v). index_key k v nodeId) ` set ps"







section \<open>Entries of the connection graph\<close>



text \<open>The store after S5.\<close>

definition S5_store :: kvstore where
  "S5_store =
    [(''node:id000000000000'',
     NodeV
     \<lparr>node_id = ''id000000000000'',
     node_properties =
     [(''type'', JStr ''USER''), (''userId'', JStr ''u1''),
     (''firstSeen'', JStr ''2024-01-01T00:00:00.000Z''),
     (''lastSeen'', JStr ''2024-01-01T00:00:00.500Z'')],
     inEdges = [], outEdges = [''id000000000003'', ''id000000000004'']\<rparr>),
     (''node:id000000000001'',
     NodeV
     \<lparr>node_id = ''id000000000001'',
     node_properties =
     [(''type'', JStr ''IP''), (''ip'', JStr ''1.1.1.1''),
     (''firstSeen'', JStr ''2024-01-01T00:00:00.000Z''),
     (''lastSeen'', JStr ''2024-01-01T00:00:00.500Z'')],
     inEdges = [''id000000000003''], outEdges = []\<rparr>),
     (''node:id000000000002'',
     NodeV
     \<lparr>node_id = ''id000000000002'',
     node_properties =
     [(''type'', JStr ''FINGERPRINT''), (''fingerprint'', JStr ''fpA''),
     (''firstSeen'', JStr ''2024-01-01T00:00:00.000Z''),
     (''lastSeen'', JStr ''2024-01-01T00:00:00.500Z''),
     (''metadata'',
     JMeta
     \<lparr>browser = ''Unknown'', browserVersion = ''Unknown'',
     os = ''Unknown'', osVersion = ''Unknown'',
     device = ''Unknown'', deviceType = ''desktop'',
     cpu = ''Unknown'', userAgent = ''Mozilla/5.0''\<rparr>)],
     inEdges = [''id000000000004''], outEdges = []\<rparr>),
     (''edge:id000000000003'',
     EdgeV
     \<lparr>edge_id = ''id000000000003'', edge_type = ''USES_IP'',
     edge_properties =
     [(''firstSeen'', JStr ''2024-01-01T00:00:00.000Z''),
     (''lastSeen'', JStr ''2024-01-01T00:00:00.500Z''),
     (''count'', JNum 2)],
     fromNodeId = ''id000000000000'', toNodeId = ''id000000000001''\<rparr>),
     (''edge:id000000000004'',
     EdgeV
     \<lparr>edge_id = ''id000000000004'', edge_type = ''USES_FINGERPRINT'',
     edge_properties =
     [(''firstSeen'', JStr ''2024-01-01T00:00:00.000Z''),
     (''lastSeen'', JStr ''2024-01-01T00:00:00.500Z''),
     (''count'', JNum 2)],
     fromNodeId = ''id000000000000'', toNodeId = ''id000000000002''\<rparr>),
     (''index:type:USER:id000000000000'',
     IndexV ''id000000000000'' (JStr ''USER'')),
     (''index:userId:u1:id000000000000'',
     IndexV ''id000000000000'' (JStr ''u1'')),
     (''index:firstSeen:2024-01-01T00:00:00.000Z:id000000000000'',
     IndexV ''id000000000000'' (JStr ''2024-01-01T00:00:00.000Z'')),
     (''index:lastSeen:2024-01-01T00:00:00.500Z:id000000000000'',
     IndexV ''id000000000000'' (JStr ''2024-01-01T00:00:00.500Z'')),
     (''index:type:IP:id000000000001'',
     IndexV ''id000000000001'' (JStr ''IP'')),
     (''index:ip:1.1.1.1:id000000000001'',
     IndexV ''id000000000001'' (JStr ''1.1.1.1'')),
     (''index:firstSeen:2024-01-01T00:00:00.000Z:id000000000001'',
     IndexV ''id000000000001'' (JStr ''2024-01-01T00:00:00.000Z'')),
     (''index:lastSeen:2024-01-01T00:00:00.500Z:id000000000001'',
     IndexV ''id000000000001'' (JStr ''2024-01-01T00:00:00.500Z'')),
     (''index:type:FINGERPRINT:id000000000002'',
     IndexV ''id000000000002'' (JStr ''FINGERPRINT'')),
     (''index:fingerprint:fpA:id000000000002'',
     IndexV ''id000000000002'' (JStr ''fpA'')),
     (''index:firstSeen:2024-01-01T00:00:00.000Z:id000000000002'',
     IndexV ''id000000000002'' (JStr ''2024-01-01T00:00:00.000Z'')),
     (''index:lastSeen:2024-01-01T00:00:00.500Z:id000000000002'',
     IndexV ''id000000000002'' (JStr ''2024-01-01T00:00:00.500Z'')),
     (''index:metadata:[object Object]:id000000000002'',
     IndexV ''id000000000002''
     (JMeta
     \<lparr>browser = ''Unknown'', browserVersion = ''Unknown'',
     os = ''Unknown'', osVersion = ''Unknown'', device = ''Unknown'',
     deviceType = ''desktop'', cpu = ''Unknown'',
     userAgent = ''Mozilla/5.0''\<rparr>))]"

definition S5_db :: graphdb where
  "S5_db = \<lparr>kv = S5_store, ids = scenario_ids, drawn = 5\<rparr>"

text \<open>A clock that has no valid date.\<close>

definition no_date :: date_api where
  "no_date = \<lparr>toISOString = (\<lambda>ms. []), getTime = (\<lambda>s. None)\<rparr>"

text \<open>
  The adjacency of \<open>u1\<close> that S5 would give if each address had a node of its own: an edge
  to 1.1.1.1 last seen at T, an edge to 2.2.2.2 and the edge to the fingerprint last seen
  at T + 500 ms.
\<close>

definition two_address_ip_edges :: "connection list" where
  "two_address_ip_edges =
     [\<lparr>c_node = \<lparr>node_id = ''id000000000001'',
                 node_properties =
                   [(''type'', JStr ''IP''), (''ip'', JStr ''1.1.1.1''),
                    (''firstSeen'', JStr ''2024-01-01T00:00:00.000Z''),
                    (''lastSeen'', JStr ''2024-01-01T00:00:00.000Z'')],
                 inEdges = [''id000000000003''], outEdges = []\<rparr>,
       c_stats = \<lparr>firstSeen = Some (JStr ''2024-01-01T00:00:00.000Z''),
                  lastSeen = Some (JStr ''2024-01-01T00:00:00.000Z''),
                  count = Some (JNum 1)\<rparr>\<rparr>,
      \<lparr>c_node = \<lparr>node_id = ''id000000000005'',
                 node_properties =
                   [(''type'', JStr ''IP''), (''ip'', JStr ''2.2.2.2''),
                    (''firstSeen'', JStr ''2024-01-01T00:00:00.500Z''),
                    (''lastSeen'', JStr ''2024-01-01T00:00:00.500Z'')],
                 inEdges = [''id000000000006''], outEdges = []\<rparr>,
       c_stats = \<lparr>firstSeen = Some (JStr ''2024-01-01T00:00:00.500Z''),
                  lastSeen = Some (JStr ''2024-01-01T00:00:00.500Z''),
                  count = Some (JNum 1)\<rparr>\<rparr>]"

section \<open>Keys and the store\<close>

subsection \<open>The last piece of a key\<close>

lemma split_colon_nonempty [simp]: "split_colon s \<noteq> []"
  by (induction s) (auto split: list.splits)

lemma split_colon_no_colon: "CHR '':'' \<notin> set s \<Longrightarrow> split_colon s = [s]"
  by (induction s) auto

lemma after_last_colon_no_colon:
  assumes "CHR '':'' \<notin> set s"
  shows "after_last_colon s = s"
proof -
  have h: "takeWhile (\<lambda>c. c \<noteq> CHR '':'') (rev s) = rev s"
    using assms takeWhile_eq_all_conv [of "\<lambda>c. c \<noteq> CHR '':''" "rev s"] by auto
  show ?thesis unfolding after_last_colon_def h by simp
qed

lemma after_last_colon_Cons:
  "after_last_colon (c # cs) = (if CHR '':'' \<in> set cs then after_last_colon cs
     else if c = CHR '':'' then cs else c # cs)"
  by (auto simp: after_last_colon_def takeWhile_append)

lemma split_colon_single: "split_colon s = [p] \<Longrightarrow> CHR '':'' \<notin> set s"
  by (induction s arbitrary: p) (auto split: if_splits list.splits)

lemma pop_split_colon: "pop (split_colon s) = after_last_colon s"
proof (induction s)
  case Nil
  show ?case by (simp add: pop_def after_last_colon_def)
next
  case (Cons c cs)
  show ?case
  proof (cases "CHR '':'' \<in> set cs")
    case True
    then have "length (split_colon cs) \<noteq> 1"
      using split_colon_single [of cs] by (cases "split_colon cs") auto
    then obtain p q ps where "split_colon cs = p # q # ps"
      by (cases "split_colon cs"; cases "tl (split_colon cs)") auto
    with Cons True show ?thesis
      by (simp add: pop_def after_last_colon_Cons)
  next
    case False
    then show ?thesis
      by (simp add: pop_def after_last_colon_Cons split_colon_no_colon)
  qed
qed


lemma length_map_filter_le: "length (List.map_filter f xs) \<le> length xs"
  by (simp add: List.map_filter_def)

lemma map_filter_id_map: "List.map_filter (\<lambda>n. n) (map f xs) = List.map_filter f xs"
  by (induction xs) (simp_all add: map_filter_simps split: option.splits)

subsection \<open>Reading the store after a write\<close>

lemma kv_get_put: "kv_get (kv_put k v s) k' = (if k' = k then Some v else kv_get s k')"
  by (induction s) (auto simp: kv_get_def)


lemma kv_get_keys: "kv_get s k \<noteq> None \<longleftrightarrow> k \<in> set (map fst s)"
  by (simp add: kv_get_def map_of_eq_None_iff)


lemma kv_get_put_indexes_dom:
  "kv_get (put_indexes nodeId ps s) k' \<noteq> None \<longleftrightarrow> k' \<in> ikeys nodeId ps \<or> kv_get s k' \<noteq> None"
  unfolding put_indexes_def ikeys_def
  by (induction ps arbitrary: s) (auto simp: kv_get_put split: if_splits)


subsection \<open>The three namespaces\<close>

lemma node_key_inj [simp]: "node_key a = node_key b \<longleftrightarrow> a = b"
  by (simp add: node_key_def)

lemma edge_key_inj [simp]: "edge_key a = edge_key b \<longleftrightarrow> a = b"
  by (simp add: edge_key_def)

lemma keys_distinct [simp]:
  "node_key a \<noteq> edge_key b" "edge_key b \<noteq> node_key a"
  "node_key a \<noteq> index_key k v n" "index_key k v n \<noteq> node_key a"
  "edge_key b \<noteq> index_key k v n" "index_key k v n \<noteq> edge_key b"
  by (simp_all add: node_key_def edge_key_def index_key_def NODE_PREFIX_def EDGE_PREFIX_def
      INDEX_PREFIX_def)

lemma starts_with_index [simp]:
  "starts_with INDEX_PREFIX (index_key k v n)"
  "\<not> starts_with INDEX_PREFIX (node_key a)"
  "\<not> starts_with INDEX_PREFIX (edge_key b)"
  by (simp_all add: starts_with_def node_key_def edge_key_def index_key_def NODE_PREFIX_def
      EDGE_PREFIX_def INDEX_PREFIX_def)

lemma node_key_notin_ikeys [simp]: "node_key a \<notin> ikeys n ps" "edge_key b \<notin> ikeys n ps"
  by (auto simp: ikeys_def)





subsection \<open>The effect of the node operations\<close>



















subsection \<open>Preservation of index consistency\<close>

















subsection \<open>Queries\<close>

lemma query_result_items:
  "items (query_result db L lr) =
     List.map_filter (\<lambda>key. getNode db (after_last_colon key)) (take L (keys lr))"
proof -
  have "items (query_result db L lr) =
     List.map_filter (\<lambda>n. n)
       (map (\<lambda>key. getNode db (after_last_colon key)) (take L (keys lr)))"
    by (simp add: query_result_def Let_def pop_split_colon comp_def)
  then show ?thesis by (simp only: map_filter_id_map)
qed









subsection \<open>The loop of the connection graph\<close>





subsection \<open>Edges between two different nodes\<close>

lemma createEdge_fails_iff:
  "(\<exists>err. createEdge db a b ty p = Inl err) \<longleftrightarrow> (getNode db a = None \<or> getNode db b = None)"
  by (auto simp: createEdge_def Let_def split: option.splits)

lemma createEdge_distinct_endpoints:
  assumes "createEdge db a b ty p = Inr (e, db')" and "a \<noteq> b"
  shows "\<exists>fa tb. getNode db' a = Some fa \<and> edge_id e \<in> set (outEdges fa)
           \<and> getNode db' b = Some tb \<and> edge_id e \<in> set (inEdges tb)
           \<and> getEdge db' (edge_id e) = Some e
           \<and> edge_type e = ty \<and> edge_properties e = p \<and> fromNodeId e = a \<and> toNodeId e = b"
  using assms
  by (auto simp: createEdge_def Let_def getNode_def getEdge_def kv_get_put
      split: option.splits kvval.splits)

section \<open>Properties of the risk engine\<close>

lemma getRiskLevel_partition:
  "(getRiskLevel s = HIGH \<longleftrightarrow> s \<ge> 70) \<and> (getRiskLevel s = MEDIUM \<longleftrightarrow> 40 \<le> s \<and> s < 70)
   \<and> (getRiskLevel s = LOW \<longleftrightarrow> s < 40)"
  by (simp add: getRiskLevel_def)

lemma fold_scores_nonneg:
  "\<forall>f \<in> set fs. 0 \<le> f_score f \<Longrightarrow> 0 \<le> a
     \<Longrightarrow> 0 \<le> fold (\<lambda>factor sum. sum + f_score factor) fs a"
  by (induction fs arbitrary: a) auto

lemma factors_nonneg:
  "f \<in> set (factors (calculateUserRisk D now ipEdges fpEdges)) \<Longrightarrow> 0 \<le> f_score f"
  unfolding calculateUserRisk_def Let_def
  by (auto split: if_splits)

lemma score_eq:
  "score (calculateUserRisk D now ipEdges fpEdges) =
     min (fold (\<lambda>factor sum. sum + f_score factor)
            (factors (calculateUserRisk D now ipEdges fpEdges)) 0) 100"
  unfolding calculateUserRisk_def Let_def by simp

lemma level_eq:
  "level (calculateUserRisk D now ipEdges fpEdges) =
     getRiskLevel (score (calculateUserRisk D now ipEdges fpEdges))"
  unfolding calculateUserRisk_def Let_def by simp

lemma risk_empty:
  "calculateUserRisk D now [] [] = \<lparr>score = 0, level = LOW, factors = []\<rparr>"
  by (simp add: calculateUserRisk_def checkRapidChanges_def new_Set_def getRiskLevel_def)

text \<open>
  C4. For all edge lists, whatever the clock, the score of \<open>calculateUserRisk\<close> lies
  between 0 and 100; the level is HIGH exactly from 70, MEDIUM exactly from 40 up to 69,
  and LOW exactly below 40; and on two empty lists the assessment is score 0, level LOW
  and no factor. The function is total: it has no failing branch.
\<close>

theorem calculateUserRisk_range:
  "0 \<le> score (calculateUserRisk D now ipEdges fpEdges)
   \<and> score (calculateUserRisk D now ipEdges fpEdges) \<le> 100
   \<and> (level (calculateUserRisk D now ipEdges fpEdges) = HIGH
        \<longleftrightarrow> score (calculateUserRisk D now ipEdges fpEdges) \<ge> 70)
   \<and> (level (calculateUserRisk D now ipEdges fpEdges) = MEDIUM
        \<longleftrightarrow> 40 \<le> score (calculateUserRisk D now ipEdges fpEdges)
            \<and> score (calculateUserRisk D now ipEdges fpEdges) < 70)
   \<and> (level (calculateUserRisk D now ipEdges fpEdges) = LOW
        \<longleftrightarrow> score (calculateUserRisk D now ipEdges fpEdges) < 40)
   \<and> calculateUserRisk D now [] [] = \<lparr>score = 0, level = LOW, factors = []\<rparr>"
proof -
  let ?r = "calculateUserRisk D now ipEdges fpEdges"
  have "0 \<le> fold (\<lambda>factor sum. sum + f_score factor) (factors ?r) 0"
    by (rule fold_scores_nonneg) (auto dest: factors_nonneg)
  then have lo: "0 \<le> score ?r" by (subst score_eq) simp
  have hi: "score ?r \<le> 100" by (subst score_eq) simp
  show ?thesis
    using lo hi getRiskLevel_partition [of "score ?r"] risk_empty [of D now]
    by (simp add: level_eq)
qed

theorem calculateUserRisk_range_witness:
  "score (calculateUserRisk utc_date 1704067260000 [S5_ip_edge] [S5_fp_edge]) \<le> 100
   \<and> 0 \<le> score (calculateUserRisk utc_date 1704067260000 [S5_ip_edge] [S5_fp_edge])
   \<and> calculateUserRisk no_date 0 [] [] = \<lparr>score = 0, level = LOW, factors = []\<rparr>"
  using calculateUserRisk_range [of utc_date 1704067260000 "[S5_ip_edge]" "[S5_fp_edge]"]
    calculateUserRisk_range [of no_date 0 "[]" "[]"]
  by simp

section \<open>Scenarios of the identity tracker\<close>






text \<open>
  The pair counted in S5 is the edge to the address and the edge to the fingerprint, both
  last seen at T + 500 ms: the second call finds the node of 1.1.1.1 under the type IP and
  attaches to it. On the adjacency with one node for each address, the engine counts two
  adjacent pairs and the score is 30.
\<close>

lemma two_address_edges_score:
  assumes c: "toISOString D (now - 5 * 60 * 1000) \<le> ''2024-01-01T00:00:00.000Z''"
    and a: "getTime D ''2024-01-01T00:00:00.000Z'' = Some t"
    and b: "getTime D ''2024-01-01T00:00:00.500Z'' = Some (t + 500)"
  shows "score (calculateUserRisk D now two_address_ip_edges [S5_fp_edge]) = 30
     \<and> map f_score (factors (calculateUserRisk D now two_address_ip_edges [S5_fp_edge])) = [30]"
proof -
  have le: "''2024-01-01T00:00:00.000Z'' \<le> ''2024-01-01T00:00:00.500Z''" by code_simp
  have c2: "toISOString D (now - 300000) \<le> ''2024-01-01T00:00:00.500Z''"
    using c le by (simp add: order_trans)
  have c1: "toISOString D (now - 300000) \<le> ''2024-01-01T00:00:00.000Z''"
    using c by simp
  have rapid: "f_score (checkRapidChanges D two_address_ip_edges [S5_fp_edge]
                 (toISOString D (now - 300000))) = 30"
    using c1 c2 a b le
    by (simp add: checkRapidChanges_def two_address_ip_edges_def S5_fp_edge_def get_prop_def)
  have n2: "length (new_Set xs) \<le> length xs" for xs :: "jsval option list"
  proof -
    have "length (fold (\<lambda>x s. if x \<in> set s then s else s @ [x]) xs acc) \<le> length acc + length xs"
      for acc :: "jsval option list"
    proof (induction xs arbitrary: acc)
      case Nil
      show ?case by simp
    next
      case (Cons x xs)
      show ?case using Cons [of "if x \<in> set acc then acc else acc @ [x]"]
        by (simp split: if_splits)
    qed
    from this [of "[]"] show ?thesis unfolding new_Set_def by simp
  qed
  have f1: "(int (length (new_Set (map f (filter P two_address_ip_edges)))) > 3) = False"
    and f2: "(int (length (new_Set (map f (filter P two_address_ip_edges)))) > 2) = False"
    for f :: "connection \<Rightarrow> jsval option" and P
    using n2 [of "map f (filter P two_address_ip_edges)"]
      length_filter_le [of P two_address_ip_edges]
    by (simp_all add: two_address_ip_edges_def)
  have f3: "(int (length (new_Set (map f (filter P [S5_fp_edge])))) > 2) = False"
    for f :: "connection \<Rightarrow> jsval option" and P
    using n2 [of "map f (filter P [S5_fp_edge])"] length_filter_le [of P "[S5_fp_edge]"]
    by simp
  show ?thesis
    by (simp only: calculateUserRisk_def Let_def f1 f2 f3 if_False) (simp add: rapid)
qed


text \<open>
  C1, at a failing input. The store knows user \<open>u2\<close> only (no node has userId \<open>u1\<close>).
  The upsert of \<open>u1\<close> returns the node of \<open>u2\<close> and moves its lastSeen, and after the whole
  \<open>recordConnection\<close> for \<open>u1\<close>, address 1.1.1.1 and fingerprint fpA the store still holds
  the three nodes of \<open>u2\<close> and none for the new natural keys: the lookup lists the index of
  the type and never compares the natural key.
\<close>

theorem recordConnection_new_user_reuses_nodes:
  "(case other_user_run of
      Inl err \<Rightarrow> False
    | Inr db \<Rightarrow>
        filter (\<lambda>n. get_prop ''userId'' (node_properties n) = Some (JStr ''u1'')) (all_nodes db) = []
        \<and> (case getOrCreateUserNode db ''u1'' ''2024-01-02T00:00:00.000Z'' of
             (n, db') \<Rightarrow>
               get_prop ''userId'' (node_properties n) = Some (JStr ''u2'')
               \<and> map node_summary (filter (\<lambda>n. get_prop ''type'' (node_properties n) = Some (JStr ''USER''))
                    (all_nodes db')) =
                 [[Some (JStr ''USER''), Some (JStr ''u2''), None, None,
                   Some (JStr ''2024-01-01T00:00:00.000Z''),
                   Some (JStr ''2024-01-02T00:00:00.000Z'')]]))
   \<and> (case new_user_run of
      Inl err \<Rightarrow> False
    | Inr db \<Rightarrow>
        map node_summary (all_nodes db) =
          [[Some (JStr ''USER''), Some (JStr ''u2''), None, None,
            Some (JStr ''2024-01-01T00:00:00.000Z''), Some (JStr ''2024-01-02T00:00:00.000Z'')],
           [Some (JStr ''IP''), None, Some (JStr ''2.2.2.2''), None,
            Some (JStr ''2024-01-01T00:00:00.000Z''), Some (JStr ''2024-01-02T00:00:00.000Z'')],
           [Some (JStr ''FINGERPRINT''), None, None, Some (JStr ''fpB''),
            Some (JStr ''2024-01-01T00:00:00.000Z''), Some (JStr ''2024-01-02T00:00:00.000Z'')]])"
  by code_simp


section \<open>Properties of the graph database\<close>

text \<open>
  C8, at a failing input. \<open>createEdge\<close> fails exactly when an endpoint is missing, and
  between two different nodes it does what the claim says (\<open>createEdge_fails_iff\<close>,
  \<open>createEdge_distinct_endpoints\<close>). Here an edge is created from an existing node to
  itself. The call succeeds and the edge is stored, but the node is written twice from two
  separate copies, and the record that remains has the edge in \<open>inEdges\<close> only:
  \<open>outEdges\<close> is empty.
\<close>

theorem createEdge_self_loop:
  "(case createNode empty_db [(''name'', JStr ''a'')] of
      (n, db) \<Rightarrow>
        (case createEdge db (node_id n) (node_id n) ''LINKS'' [] of
           Inl err \<Rightarrow> False
         | Inr (e, db') \<Rightarrow>
             map_option outEdges (getNode db' (node_id n)) = Some []
             \<and> map_option inEdges (getNode db' (node_id n)) = Some [edge_id e]
             \<and> getEdge db' (edge_id e) = Some e))"
  by code_simp




text \<open>
  C9, as the claim states it, fails: the store may answer a listing with no more keys than
  the limit and still report that the listing is not complete; the result then carries the
  cursor of the store although no more than \<open>L\<close> keys were returned.
\<close>

theorem query_cursor_counterexample:
  "\<not> (r_cursor (query_result empty_db 1
          \<lparr>keys = [''index:type:USER:id000000000000''], list_complete = False,
           cursor = Some ''next''\<rparr>) \<noteq> None
      \<longleftrightarrow> length (keys \<lparr>keys = [''index:type:USER:id000000000000''], list_complete = False,
                         cursor = Some ''next''\<rparr>) > 1
          \<and> \<not> list_complete \<lparr>keys = [''index:type:USER:id000000000000''],
                         list_complete = False, cursor = Some ''next''\<rparr>)"
  by (simp add: query_result_def)

text \<open>
  C9, amended. For every answer \<open>lr\<close> of the store to the listing of a query with limit \<open>L\<close>:
  the result has at most \<open>L\<close> items; they are the nodes that resolve for the identifiers
  taken after the last colon of each of the first \<open>L\<close> keys; the cursor of the result is
  the cursor of the store exactly when the listing is not complete (whatever the number of
  keys), and \<open>hasMore\<close> holds exactly when the store returned more than \<open>L\<close> keys and the
  listing is not complete. \<open>query\<close> is this result on the listing of \<open>L + 1\<close> keys under the
  prefix of the query.
\<close>

theorem query_result_page:
  "length (items (query_result db L lr)) \<le> L
   \<and> items (query_result db L lr) =
       List.map_filter (\<lambda>key. getNode db (after_last_colon key)) (take L (keys lr))
   \<and> r_cursor (query_result db L lr) = (if list_complete lr then None else cursor lr)
   \<and> hasMore (query_result db L lr) = (\<not> list_complete lr \<and> L < length (keys lr))
   \<and> query db opts =
       query_result db (query_limit opts)
         (kv_list (kv db) (query_prefix opts) (query_limit opts + 1) (q_cursor opts))"
proof -
  have "length (items (query_result db L lr)) \<le> length (take L (keys lr))"
    unfolding query_result_items by (rule length_map_filter_le)
  then have len: "length (items (query_result db L lr)) \<le> L" by simp
  show ?thesis
    using len query_result_items [of db L lr] by (simp add: query_result_def query_def Let_def)
qed

theorem query_result_page_witness:
  "items (query_result empty_db 1
          \<lparr>keys = [''index:type:USER:id000000000000''], list_complete = False,
           cursor = Some ''next''\<rparr>) = []
   \<and> r_cursor (query_result empty_db 1
          \<lparr>keys = [''index:type:USER:id000000000000''], list_complete = False,
           cursor = Some ''next''\<rparr>) = Some ''next''
   \<and> hasMore (query_result empty_db 1
          \<lparr>keys = [''index:type:USER:id000000000000''], list_complete = False,
           cursor = Some ''next''\<rparr>) = False"
  using query_result_page [of empty_db 1
      "\<lparr>keys = [''index:type:USER:id000000000000''], list_complete = False,
        cursor = Some ''next''\<rparr>" all_users]
  by (simp add: List.map_filter_def getNode_def kv_get_def empty_db_def)



section \<open>The connection graph\<close>


lemma S5_db_run:
  "(case S5_run of Inl err \<Rightarrow> False | Inr db \<Rightarrow> kv db = kv S5_db \<and> drawn db = drawn S5_db)"
  by code_simp


end
